theory Spec2Isabelle
  imports Main "HOL-Library.Char_ord" "HOL-Library.List_Lexorder"
begin

section \<open>Python values\<close>

text \<open>
  The module parameters and the documents handled by \<^verbatim>\<open>sqs_queue\<close> are Python objects:
  \<^verbatim>\<open>None\<close>, booleans, integers, strings, lists and dictionaries with string keys. A
  dictionary is an association list in insertion order whose keys are distinct. Strings
  are ASCII; numbers are integers (the module declares every numeric parameter as
  \<^verbatim>\<open>type='int'\<close>, and floating point is outside this development).
\<close>

datatype pyval =
    PNone
  | PBool bool
  | PInt int
  | PStr string
  | PList "pyval list"
  | PDict "(string \<times> pyval) list"

text \<open>Truth value of an object, as \<^verbatim>\<open>not value\<close> tests it.\<close>

fun truthy :: "pyval \<Rightarrow> bool" where
  "truthy PNone = False"
| "truthy (PBool b) = b"
| "truthy (PInt i) = (i \<noteq> 0)"
| "truthy (PStr s) = (s \<noteq> [])"
| "truthy (PList xs) = (xs \<noteq> [])"
| "truthy (PDict kvs) = (kvs \<noteq> [])"

text \<open>
  \<^verbatim>\<open>value != 0\<close>: a boolean compares as the integer 0 or 1 (\<^verbatim>\<open>False == 0\<close>), and
  \<^verbatim>\<open>None\<close>, strings, lists and dictionaries are never equal to 0.
\<close>

fun ne_zero :: "pyval \<Rightarrow> bool" where
  "ne_zero (PInt i) = (i \<noteq> 0)"
| "ne_zero (PBool b) = b"
| "ne_zero PNone = True"
| "ne_zero (PStr s) = True"
| "ne_zero (PList xs) = True"
| "ne_zero (PDict kvs) = True"

subsection \<open>Dictionaries\<close>

fun dict_set :: "(string \<times> 'a) list \<Rightarrow> string \<Rightarrow> 'a \<Rightarrow> (string \<times> 'a) list" where
  "dict_set [] k v = [(k, v)]"
| "dict_set ((k', v') # d) k v =
     (if k' = k then (k, v) # d else (k', v') # dict_set d k v)"

definition dict_get :: "(string \<times> 'a) list \<Rightarrow> string \<Rightarrow> 'a option" where
  "dict_get d k = map_of d k"

text \<open>\<^verbatim>\<open>d.update(e)\<close> and \<^verbatim>\<open>dict(pairs)\<close>: later entries overwrite earlier ones.\<close>

definition dict_update :: "(string \<times> 'a) list \<Rightarrow> (string \<times> 'a) list \<Rightarrow> (string \<times> 'a) list" where
  "dict_update d e = foldl (\<lambda>acc (k, v). dict_set acc k v) d e"

definition dict_of_pairs :: "(string \<times> 'a) list \<Rightarrow> (string \<times> 'a) list" where
  "dict_of_pairs ps = dict_update [] ps"

subsection \<open>\<^verbatim>\<open>str\<close> and \<^verbatim>\<open>str.lower\<close>\<close>

definition hex_digit :: "nat \<Rightarrow> char" where
  "hex_digit n = ''0123456789abcdef'' ! n"

definition hex2 :: "char \<Rightarrow> string" where
  "hex2 c = [hex_digit (of_char c div 16), hex_digit (of_char c mod 16)]"

fun str_nat :: "nat \<Rightarrow> string" where
  "str_nat n = (if n < 10 then [hex_digit n] else str_nat (n div 10) @ [hex_digit (n mod 10)])"

declare str_nat.simps [simp del]

definition str_int :: "int \<Rightarrow> string" where
  "str_int i = (if i < 0 then CHR ''-'' # str_nat (nat (- i)) else str_nat (nat i))"

fun join :: "string \<Rightarrow> string list \<Rightarrow> string" where
  "join sep [] = []"
| "join sep [x] = x"
| "join sep (x # y # ys) = x @ sep @ join sep (y # ys)"

definition backslash :: char where
  "backslash = CHR 0x5C"

definition dquote :: char where
  "dquote = CHR 0x22"

definition squote :: char where
  "squote = CHR 0x27"

text \<open>
  \<^verbatim>\<open>repr\<close> of a string: single quotes, unless the string holds a single quote and no
  double quote; the quote and the backslash are escaped, control characters are written
  \<^verbatim>\<open>\n\<close>, \<^verbatim>\<open>\r\<close>, \<^verbatim>\<open>\t\<close> or \<^verbatim>\<open>\xhh\<close>.
\<close>

definition repr_quote :: "string \<Rightarrow> char" where
  "repr_quote s = (if squote \<in> set s \<and> dquote \<notin> set s then dquote else squote)"

definition repr_char :: "char \<Rightarrow> char \<Rightarrow> string" where
  "repr_char q c =
     (if c = backslash \<or> c = q then [backslash, c]
      else if c = CHR 0x09 then [backslash, CHR ''t'']
      else if c = CHR 0x0A then [backslash, CHR ''n'']
      else if c = CHR 0x0D then [backslash, CHR ''r'']
      else if (of_char c :: nat) < 32 \<or> (of_char c :: nat) > 126 then [backslash, CHR ''x''] @ hex2 c
      else [c])"

definition repr_str :: "string \<Rightarrow> string" where
  "repr_str s = (let q = repr_quote s in q # concat (map (repr_char q) s) @ [q])"

fun py_repr :: "pyval \<Rightarrow> string" where
  "py_repr PNone = ''None''"
| "py_repr (PBool b) = (if b then ''True'' else ''False'')"
| "py_repr (PInt i) = str_int i"
| "py_repr (PStr s) = repr_str s"
| "py_repr (PList xs) = ''['' @ join '', '' (map py_repr xs) @ '']''"
| "py_repr (PDict kvs) =
     ''{'' @ join '', '' (map (\<lambda>(k, v). repr_str k @ '': '' @ py_repr v) kvs) @ ''}''"

definition py_str :: "pyval \<Rightarrow> string" where
  "py_str v = (case v of PStr s \<Rightarrow> s | _ \<Rightarrow> py_repr v)"

definition lower_char :: "char \<Rightarrow> char" where
  "lower_char c =
     (if CHR ''A'' \<le> c \<and> c \<le> CHR ''Z'' then char_of ((of_char c :: nat) + 32) else c)"

definition lower :: "string \<Rightarrow> string" where
  "lower s = map lower_char s"

section \<open>The \<^verbatim>\<open>json\<close> library\<close>

subsection \<open>\<^verbatim>\<open>json.dumps(value, sort_keys=True)\<close>\<close>

text \<open>
  The default separators are \<^verbatim>\<open>', '\<close> and \<^verbatim>\<open>': '\<close>; with \<^verbatim>\<open>ensure_ascii\<close> every
  character outside the printable ASCII range is written as an escape. With
  \<^verbatim>\<open>sort_keys=True\<close> the entries of every dictionary are written in the order of their
  keys.
\<close>

definition json_escape_char :: "char \<Rightarrow> string" where
  "json_escape_char c =
     (if c = dquote \<or> c = backslash then [backslash, c]
      else if c = CHR 0x08 then [backslash, CHR ''b'']
      else if c = CHR 0x0C then [backslash, CHR ''f'']
      else if c = CHR 0x0A then [backslash, CHR ''n'']
      else if c = CHR 0x0D then [backslash, CHR ''r'']
      else if c = CHR 0x09 then [backslash, CHR ''t'']
      else if (of_char c :: nat) < 32 \<or> (of_char c :: nat) > 126
        then [backslash, CHR ''u'', CHR ''0'', CHR ''0''] @ hex2 c
      else [c])"

definition json_quote :: "string \<Rightarrow> string" where
  "json_quote s = dquote # concat (map json_escape_char s) @ [dquote]"

fun json_dumps :: "pyval \<Rightarrow> string" where
  "json_dumps PNone = ''null''"
| "json_dumps (PBool b) = (if b then ''true'' else ''false'')"
| "json_dumps (PInt i) = str_int i"
| "json_dumps (PStr s) = json_quote s"
| "json_dumps (PList xs) = ''['' @ join '', '' (map json_dumps xs) @ '']''"
| "json_dumps (PDict kvs) =
     ''{'' @ join '', '' (map (\<lambda>(k, v). json_quote k @ '': '' @ json_dumps v) (sort_key fst kvs))
       @ ''}''"

subsection \<open>\<^verbatim>\<open>json.loads\<close>\<close>

text \<open>
  The decoder is a scanner followed by a parser, each a machine that reads its input
  once from left to right. \<open>None\<close> stands for the \<^verbatim>\<open>ValueError\<close> that \<^verbatim>\<open>json.loads\<close>
  raises. Number literals are integers and \<^verbatim>\<open>\uXXXX\<close> escapes stay below 256, as the
  values of \<^typ>\<open>pyval\<close> do.
\<close>

datatype token = TLBrace | TRBrace | TLBrack | TRBrack | TColon | TComma | TVal pyval

datatype lstate =
    LStart
  | LStr string
  | LEsc string
  | LUni string nat nat
  | LNum string
  | LWord string

definition is_digit :: "char \<Rightarrow> bool" where
  "is_digit c = (CHR ''0'' \<le> c \<and> c \<le> CHR ''9'')"

definition is_alpha :: "char \<Rightarrow> bool" where
  "is_alpha c = ((CHR ''a'' \<le> c \<and> c \<le> CHR ''z'') \<or> (CHR ''A'' \<le> c \<and> c \<le> CHR ''Z''))"

definition is_space :: "char \<Rightarrow> bool" where
  "is_space c = (c = CHR '' '' \<or> c = CHR 0x09 \<or> c = CHR 0x0A \<or> c = CHR 0x0D)"

definition hex_val :: "char \<Rightarrow> nat option" where
  "hex_val c =
     (if is_digit c then Some (of_char c - 48)
      else if CHR ''a'' \<le> c \<and> c \<le> CHR ''f'' then Some (of_char c - 87)
      else if CHR ''A'' \<le> c \<and> c \<le> CHR ''F'' then Some (of_char c - 55)
      else None)"

definition digits_val :: "string \<Rightarrow> nat" where
  "digits_val ds = foldl (\<lambda>n d. 10 * n + (of_char d - 48)) 0 ds"

text \<open>A number literal is \<^verbatim>\<open>-?(0|[1-9][0-9]*)\<close>; the argument holds it reversed.\<close>

definition finish_num :: "string \<Rightarrow> token option" where
  "finish_num acc =
     (let s = rev acc;
          neg = (s \<noteq> [] \<and> hd s = CHR ''-'');
          ds = (if neg then tl s else s)
      in if ds = [] \<or> \<not> list_all is_digit ds \<or> (hd ds = CHR ''0'' \<and> ds \<noteq> ''0'') then None
         else Some (TVal (PInt (if neg then - int (digits_val ds) else int (digits_val ds)))))"

definition finish_word :: "string \<Rightarrow> token option" where
  "finish_word acc =
     (let s = rev acc
      in if s = ''true'' then Some (TVal (PBool True))
         else if s = ''false'' then Some (TVal (PBool False))
         else if s = ''null'' then Some (TVal PNone)
         else None)"

definition start_step :: "token list \<Rightarrow> char \<Rightarrow> (lstate \<times> token list) option" where
  "start_step toks c =
     (if is_space c then Some (LStart, toks)
      else if c = CHR ''{'' then Some (LStart, TLBrace # toks)
      else if c = CHR ''}'' then Some (LStart, TRBrace # toks)
      else if c = CHR ''['' then Some (LStart, TLBrack # toks)
      else if c = CHR '']'' then Some (LStart, TRBrack # toks)
      else if c = CHR '':'' then Some (LStart, TColon # toks)
      else if c = CHR '','' then Some (LStart, TComma # toks)
      else if c = dquote then Some (LStr [], toks)
      else if c = CHR ''-'' \<or> is_digit c then Some (LNum [c], toks)
      else if is_alpha c then Some (LWord [c], toks)
      else None)"

definition unescape :: "char \<Rightarrow> char option" where
  "unescape c =
     (if c = dquote \<or> c = backslash \<or> c = CHR ''/'' then Some c
      else if c = CHR ''b'' then Some (CHR 0x08)
      else if c = CHR ''f'' then Some (CHR 0x0C)
      else if c = CHR ''n'' then Some (CHR 0x0A)
      else if c = CHR ''r'' then Some (CHR 0x0D)
      else if c = CHR ''t'' then Some (CHR 0x09)
      else None)"

definition lstep :: "lstate \<times> token list \<Rightarrow> char \<Rightarrow> (lstate \<times> token list) option" where
  "lstep st c =
     (case st of
        (LStart, toks) \<Rightarrow> start_step toks c
      | (LStr acc, toks) \<Rightarrow>
          (if c = dquote then Some (LStart, TVal (PStr (rev acc)) # toks)
           else if c = backslash then Some (LEsc acc, toks)
           else if (of_char c :: nat) < 32 then None
           else Some (LStr (c # acc), toks))
      | (LEsc acc, toks) \<Rightarrow>
          (if c = CHR ''u'' then Some (LUni acc 0 0, toks)
           else (case unescape c of
                   None \<Rightarrow> None
                 | Some c' \<Rightarrow> Some (LStr (c' # acc), toks)))
      | (LUni acc v n, toks) \<Rightarrow>
          (case hex_val c of
             None \<Rightarrow> None
           | Some h \<Rightarrow>
               (if n < 3 then Some (LUni acc (16 * v + h) (n + 1), toks)
                else if 16 * v + h < 256 then Some (LStr (char_of (16 * v + h) # acc), toks)
                else None))
      | (LNum acc, toks) \<Rightarrow>
          (if is_digit c then Some (LNum (c # acc), toks)
           else (case finish_num acc of
                   None \<Rightarrow> None
                 | Some t \<Rightarrow> start_step (t # toks) c))
      | (LWord acc, toks) \<Rightarrow>
          (if is_alpha c then Some (LWord (c # acc), toks)
           else (case finish_word acc of
                   None \<Rightarrow> None
                 | Some t \<Rightarrow> start_step (t # toks) c)))"

definition lex_end :: "lstate \<times> token list \<Rightarrow> token list option" where
  "lex_end st =
     (case st of
        (LStart, toks) \<Rightarrow> Some (rev toks)
      | (LNum acc, toks) \<Rightarrow> map_option (\<lambda>t. rev (t # toks)) (finish_num acc)
      | (LWord acc, toks) \<Rightarrow> map_option (\<lambda>t. rev (t # toks)) (finish_word acc)
      | _ \<Rightarrow> None)"

fun lex_run :: "lstate \<times> token list \<Rightarrow> string \<Rightarrow> token list option" where
  "lex_run st [] = lex_end st"
| "lex_run st (c # cs) = (case lstep st c of None \<Rightarrow> None | Some st' \<Rightarrow> lex_run st' cs)"

datatype frame = FArr "pyval list" | FObj "(string \<times> pyval) list" | FKey string

datatype pstate = PValue | PFirstItem | PFirstKey | PKey | PColon | PNext | PDone pyval

text \<open>A finished value goes to the container on top of the stack, or is the document.\<close>

definition reduce :: "pyval \<Rightarrow> frame list \<Rightarrow> (pstate \<times> frame list) option" where
  "reduce v st =
     (case st of
        [] \<Rightarrow> Some (PDone v, [])
      | FArr items # st' \<Rightarrow> Some (PNext, FArr (v # items) # st')
      | FKey k # FObj pairs # st' \<Rightarrow> Some (PNext, FObj ((k, v) # pairs) # st')
      | _ \<Rightarrow> None)"

definition close_array :: "frame list \<Rightarrow> (pstate \<times> frame list) option" where
  "close_array st =
     (case st of FArr items # st' \<Rightarrow> reduce (PList (rev items)) st' | _ \<Rightarrow> None)"

definition close_object :: "frame list \<Rightarrow> (pstate \<times> frame list) option" where
  "close_object st =
     (case st of FObj pairs # st' \<Rightarrow> reduce (PDict (dict_of_pairs (rev pairs))) st' | _ \<Rightarrow> None)"

definition open_value :: "frame list \<Rightarrow> token \<Rightarrow> (pstate \<times> frame list) option" where
  "open_value st t =
     (case t of
        TVal v \<Rightarrow> reduce v st
      | TLBrack \<Rightarrow> Some (PFirstItem, FArr [] # st)
      | TLBrace \<Rightarrow> Some (PFirstKey, FObj [] # st)
      | _ \<Rightarrow> None)"

definition open_key :: "frame list \<Rightarrow> token \<Rightarrow> (pstate \<times> frame list) option" where
  "open_key st t = (case t of TVal (PStr k) \<Rightarrow> Some (PColon, FKey k # st) | _ \<Rightarrow> None)"

definition pstep :: "pstate \<times> frame list \<Rightarrow> token \<Rightarrow> (pstate \<times> frame list) option" where
  "pstep ps t =
     (case ps of
        (PValue, st) \<Rightarrow> open_value st t
      | (PFirstItem, st) \<Rightarrow> (if t = TRBrack then close_array st else open_value st t)
      | (PFirstKey, st) \<Rightarrow> (if t = TRBrace then close_object st else open_key st t)
      | (PKey, st) \<Rightarrow> open_key st t
      | (PColon, st) \<Rightarrow> (if t = TColon then Some (PValue, st) else None)
      | (PNext, st) \<Rightarrow>
          (if t = TComma then
             (case st of
                FArr items # st' \<Rightarrow> Some (PValue, st)
              | FObj pairs # st' \<Rightarrow> Some (PKey, st)
              | _ \<Rightarrow> None)
           else if t = TRBrack then close_array st
           else if t = TRBrace then close_object st
           else None)
      | (PDone v, st) \<Rightarrow> None)"

fun parse_run :: "pstate \<times> frame list \<Rightarrow> token list \<Rightarrow> pyval option" where
  "parse_run ps [] = (case ps of (PDone v, []) \<Rightarrow> Some v | _ \<Rightarrow> None)"
| "parse_run ps (t # ts) = (case pstep ps t of None \<Rightarrow> None | Some ps' \<Rightarrow> parse_run ps' ts)"

definition json_loads :: "string \<Rightarrow> pyval option" where
  "json_loads s =
     (case lex_run (LStart, []) s of
        None \<Rightarrow> None
      | Some toks \<Rightarrow> parse_run (PValue, []) toks)"

section \<open>The connection\<close>

text \<open>
  The \<^verbatim>\<open>boto3\<close> client is handed to the module's functions as \<^verbatim>\<open>connection\<close>. Its five
  methods are fields of a record over an arbitrary remote state \<open>'r\<close>; each returns its
  response or the exception it raises, and the next remote state. The response of
  \<^verbatim>\<open>get_queue_url\<close> and \<^verbatim>\<open>create_queue\<close> is its \<^verbatim>\<open>'QueueUrl'\<close> entry, that of
  \<^verbatim>\<open>get_queue_attributes\<close> the dictionary of attribute values.
\<close>

datatype exn = ClientError | NoRegionError | ValueError | KeyError | NameError | OtherError

record 'r connection =
  get_queue_url :: "string \<Rightarrow> 'r \<Rightarrow> (exn + string) \<times> 'r"
  create_queue :: "string \<Rightarrow> (string \<times> string) list \<Rightarrow> 'r \<Rightarrow> (exn + string) \<times> 'r"
  get_queue_attributes :: "string \<Rightarrow> pyval \<Rightarrow> 'r \<Rightarrow> (exn + (string \<times> string) list) \<times> 'r"
  set_queue_attributes :: "string \<Rightarrow> (string \<times> string) list \<Rightarrow> 'r \<Rightarrow> (exn + unit) \<times> 'r"
  delete_queue :: "string \<Rightarrow> 'r \<Rightarrow> (exn + unit) \<times> 'r"

text \<open>Every call made on the connection is logged, in order, next to the remote state.\<close>

datatype call =
    GetQueueUrl string
  | CreateQueue string "(string \<times> string) list"
  | GetQueueAttributes string pyval
  | SetQueueAttributes string "(string \<times> string) list"
  | DeleteQueue string

fun mutating :: "call \<Rightarrow> bool" where
  "mutating (GetQueueUrl n) = False"
| "mutating (CreateQueue n a) = True"
| "mutating (GetQueueAttributes u ns) = False"
| "mutating (SetQueueAttributes u a) = True"
| "mutating (DeleteQueue u) = True"

record 'r world =
  remote :: 'r
  calls :: "call list"

definition invoke :: "call \<Rightarrow> ('r \<Rightarrow> (exn + 'a) \<times> 'r) \<Rightarrow> 'r world \<Rightarrow> (exn + 'a) \<times> 'r world" where
  "invoke c f w =
     (case f (remote w) of (res, r') \<Rightarrow> (res, \<lparr>remote = r', calls = calls w @ [c]\<rparr>))"

text \<open>Sequencing of two steps, the second skipped when the first raises.\<close>

definition andthen ::
  "('s \<Rightarrow> (exn + 'a) \<times> 's) \<Rightarrow> ('a \<Rightarrow> 's \<Rightarrow> (exn + 'b) \<times> 's) \<Rightarrow> 's \<Rightarrow> (exn + 'b) \<times> 's" where
  "andthen m f w = (case m w of (Inl e, w') \<Rightarrow> (Inl e, w') | (Inr x, w') \<Rightarrow> f x w')"

section \<open>\<^verbatim>\<open>src/sqs_queue/sqs_queue.py\<close>\<close>

subsection \<open>\<^verbatim>\<open>set_queue_attribute\<close>\<close>

text \<open>
  The parameters \<^verbatim>\<open>value\<close> and \<^verbatim>\<open>check_mode\<close> are \<open>val\<close> and \<open>check\<close>. The bare
  \<^verbatim>\<open>except\<close> around the read turns every exception, and a response without the
  attribute, into the empty string. \<open>converted\<close> is the pair of \<^verbatim>\<open>value\<close> and
  \<^verbatim>\<open>existing_value\<close> after the \<^verbatim>\<open>if attribute in ['Policy', 'RedrivePolicy']\<close> block, or
  the \<^verbatim>\<open>ValueError\<close> of \<^verbatim>\<open>json.loads\<close>, which no handler of the function covers.
\<close>

definition set_queue_attribute ::
  "'r connection \<Rightarrow> string \<Rightarrow> string \<Rightarrow> pyval \<Rightarrow> bool \<Rightarrow> 'r world \<Rightarrow> (exn + bool) \<times> 'r world" where
  "set_queue_attribute connection queue_url attribute val check w =
     (if \<not> truthy val \<and> ne_zero val then (Inr False, w)
      else
        (case invoke (GetQueueAttributes queue_url (PList [PStr attribute]))
                (get_queue_attributes connection queue_url (PList [PStr attribute])) w of
           (got, w1) \<Rightarrow>
             (let existing_value =
                    (case got of
                       Inl e \<Rightarrow> []
                     | Inr attrs \<Rightarrow> (case dict_get attrs attribute of None \<Rightarrow> [] | Some s \<Rightarrow> s));
                  converted =
                    (if attribute \<in> set [''Policy'', ''RedrivePolicy''] then
                       (if existing_value \<noteq> [] then
                          (case json_loads existing_value of
                             None \<Rightarrow> Inl ValueError
                           | Some doc \<Rightarrow> Inr (PStr (json_dumps val), json_dumps doc))
                        else Inr (PStr (json_dumps val), existing_value))
                     else Inr (val, existing_value))
              in (case converted of
                    Inl e \<Rightarrow> (Inl e, w1)
                  | Inr (val', existing_value') \<Rightarrow>
                      (if lower (py_str val') \<noteq> existing_value' then
                         (if \<not> check then
                            (case invoke (SetQueueAttributes queue_url [(attribute, py_str val')])
                                    (set_queue_attributes connection queue_url [(attribute, py_str val')]) w1 of
                               (Inl e, w2) \<Rightarrow> (Inl e, w2)
                             | (Inr u, w2) \<Rightarrow> (Inr True, w2))
                          else (Inr True, w1))
                       else (Inr False, w1))))))"

subsection \<open>\<^verbatim>\<open>update_sqs_queue\<close>\<close>

definition update_sqs_queue ::
  "'r connection \<Rightarrow> string \<Rightarrow> bool \<Rightarrow> pyval \<Rightarrow> pyval \<Rightarrow> pyval \<Rightarrow> pyval \<Rightarrow> pyval \<Rightarrow> pyval \<Rightarrow> pyval \<Rightarrow> pyval
     \<Rightarrow> 'r world \<Rightarrow> (exn + bool) \<times> 'r world" where
  "update_sqs_queue connection queue_url check dvt mrp mms dd rmwt pol rp fcbd =
     andthen (set_queue_attribute connection queue_url ''VisibilityTimeout'' dvt check) (\<lambda>c1.
     andthen (set_queue_attribute connection queue_url ''MessageRetentionPeriod'' mrp check) (\<lambda>c2.
     andthen (set_queue_attribute connection queue_url ''MaximumMessageSize'' mms check) (\<lambda>c3.
     andthen (set_queue_attribute connection queue_url ''DelaySeconds'' dd check) (\<lambda>c4.
     andthen (set_queue_attribute connection queue_url ''ReceiveMessageWaitTimeSeconds'' rmwt check) (\<lambda>c5.
     andthen (set_queue_attribute connection queue_url ''Policy'' pol check) (\<lambda>c6.
     andthen (set_queue_attribute connection queue_url ''RedrivePolicy'' rp check) (\<lambda>c7.
     andthen (set_queue_attribute connection queue_url ''ContentBasedDeduplication'' fcbd check) (\<lambda>c8.
     Pair (Inr (c8 \<or> c7 \<or> c6 \<or> c5 \<or> c4 \<or> c3 \<or> c2 \<or> c1 \<or> False))))))))))"

subsection \<open>The module object\<close>

text \<open>
  \<^verbatim>\<open>module.params\<close> holds the parameters of \<^verbatim>\<open>argument_spec\<close>, a parameter not given by
  the caller being \<^verbatim>\<open>None\<close> or its declared default; \<^verbatim>\<open>module.check_mode\<close> is the
  dry-run flag.
\<close>

record params =
  state :: string
  name :: string
  queue_type :: string
  region :: pyval
  fifo_content_based_deduplication :: pyval
  default_visibility_timeout :: pyval
  message_retention_period :: pyval
  maximum_message_size :: pyval
  delivery_delay :: pyval
  receive_message_wait_time :: pyval
  policy :: pyval
  redrive_policy :: pyval

record ansible_module =
  params :: params
  check_mode :: bool

text \<open>
  A run of the module ends in \<^verbatim>\<open>module.exit_json(**result)\<close>, in
  \<^verbatim>\<open>module.fail_json(**result)\<close>, in an exception that nothing catches, or by
  returning from \<^verbatim>\<open>main\<close> without either.
\<close>

datatype outcome =
    ExitJson "(string \<times> pyval) list"
  | FailJson "(string \<times> pyval) list"
  | Uncaught exn
  | Returned

text \<open>\<^verbatim>\<open>traceback.format_exc()\<close>, cut down to the name of the exception.\<close>

fun format_exc :: "exn \<Rightarrow> string" where
  "format_exc ClientError = ''botocore.exceptions.ClientError''"
| "format_exc NoRegionError = ''botocore.exceptions.NoRegionError''"
| "format_exc ValueError = ''ValueError''"
| "format_exc KeyError = ''KeyError''"
| "format_exc NameError = ''NameError''"
| "format_exc OtherError = ''Exception''"

text \<open>
  The handler \<^verbatim>\<open>except botocore.exceptions.ClientError\<close> of a \<^verbatim>\<open>try\<close> block whose body
  raised \<open>e\<close> with the dictionary \<open>result\<close> built so far: any other exception leaves
  the function.
\<close>

definition except_ClientError :: "string \<Rightarrow> exn \<Rightarrow> (string \<times> pyval) list \<Rightarrow> outcome" where
  "except_ClientError prefix e result =
     (if e = ClientError then FailJson (dict_set result ''msg'' (PStr (prefix @ format_exc e)))
      else Uncaught e)"

text \<open>A keyword argument of \<^verbatim>\<open>update_sqs_queue\<close> missing from \<^verbatim>\<open>**queue_attributes\<close> is \<^verbatim>\<open>None\<close>.\<close>

definition kwarg :: "(string \<times> pyval) list \<Rightarrow> string \<Rightarrow> pyval" where
  "kwarg d k = (case dict_get d k of None \<Rightarrow> PNone | Some v \<Rightarrow> v)"

text \<open>
  \<^verbatim>\<open>result[key] = queue_attributes['Attributes'][attribute]\<close> for each pair in turn; a
  missing attribute raises \<^verbatim>\<open>KeyError\<close>.
\<close>

fun copy_attributes ::
  "(string \<times> string) list \<Rightarrow> (string \<times> string) list \<Rightarrow> (string \<times> pyval) list
     \<Rightarrow> exn + (string \<times> pyval) list" where
  "copy_attributes attrs [] result = Inr result"
| "copy_attributes attrs ((key, attribute) # rest) result =
     (case dict_get attrs attribute of
        None \<Rightarrow> Inl KeyError
      | Some s \<Rightarrow> copy_attributes attrs rest (dict_set result key (PStr s)))"

subsection \<open>\<^verbatim>\<open>create_or_update_sqs_queue\<close>\<close>

text \<open>
  The last part of the \<^verbatim>\<open>try\<close> block: outside check mode the attributes of the queue are
  read back into \<open>result\<close>; then the module exits.
\<close>

definition read_back ::
  "'r connection \<Rightarrow> ansible_module \<Rightarrow> string \<Rightarrow> (string \<times> pyval) list \<Rightarrow> 'r world
     \<Rightarrow> outcome \<times> 'r world" where
  "read_back connection module queue_url result w =
     (if \<not> check_mode module then
        (case invoke (GetQueueAttributes queue_url (PList [PStr ''All'']))
                (get_queue_attributes connection queue_url (PList [PStr ''All''])) w of
           (Inl e, w1) \<Rightarrow>
             (except_ClientError ''Failed to create/update sqs queue due to error: '' e result, w1)
         | (Inr attrs, w1) \<Rightarrow>
             (case copy_attributes attrs
                     ([(''queue_arn'', ''QueueArn''),
                       (''default_visibility_timeout'', ''VisibilityTimeout''),
                       (''message_retention_period'', ''MessageRetentionPeriod''),
                       (''maximum_message_size'', ''MaximumMessageSize''),
                       (''delivery_delay'', ''DelaySeconds''),
                       (''receive_message_wait_time'', ''ReceiveMessageWaitTimeSeconds'')]
                      @ (if queue_type (params module) = ''fifo''
                         then [(''fifo_content_based_deduplication'', ''ContentBasedDeduplication'')]
                         else []))
                     result of
                Inl e \<Rightarrow>
                  (except_ClientError ''Failed to create/update sqs queue due to error: '' e result, w1)
              | Inr result' \<Rightarrow> (ExitJson result', w1)))
      else (ExitJson result, w))"

definition create_or_update_sqs_queue ::
  "'r connection \<Rightarrow> ansible_module \<Rightarrow> 'r world \<Rightarrow> outcome \<times> 'r world" where
  "create_or_update_sqs_queue connection module w =
     (let p = params module;
          attributes0 =
            [(''default_visibility_timeout'', default_visibility_timeout p),
             (''message_retention_period'', message_retention_period p),
             (''maximum_message_size'', maximum_message_size p),
             (''delivery_delay'', delivery_delay p),
             (''receive_message_wait_time'', receive_message_wait_time p),
             (''policy'', policy p),
             (''redrive_policy'', redrive_policy p)];
          queue_name = (if queue_type p = ''fifo'' then name p @ ''.fifo'' else name p);
          queue_attributes =
            (if queue_type p = ''fifo''
             then dict_update attributes0
                    [(''fifo_content_based_deduplication'', fifo_content_based_deduplication p)]
             else attributes0);
          result = dict_update [(''region'', region p), (''name'', PStr queue_name)] queue_attributes;
          update = (\<lambda>queue_url.
            update_sqs_queue connection queue_url (check_mode module)
              (kwarg queue_attributes ''default_visibility_timeout'')
              (kwarg queue_attributes ''message_retention_period'')
              (kwarg queue_attributes ''maximum_message_size'')
              (kwarg queue_attributes ''delivery_delay'')
              (kwarg queue_attributes ''receive_message_wait_time'')
              (kwarg queue_attributes ''policy'')
              (kwarg queue_attributes ''redrive_policy'')
              (kwarg queue_attributes ''fifo_content_based_deduplication''));
          failed = except_ClientError ''Failed to create/update sqs queue due to error: ''
      in (case invoke (GetQueueUrl queue_name) (get_queue_url connection queue_name) w of
            (Inr queue_url, w1) \<Rightarrow>
              (case update queue_url w1 of
                 (Inl e, w2) \<Rightarrow> (failed e result, w2)
               | (Inr changed, w2) \<Rightarrow>
                   read_back connection module queue_url (dict_set result ''changed'' (PBool changed)) w2)
          | (Inl e, w1) \<Rightarrow>
              (if \<not> check_mode module then
                 (let attrs = (if queue_type p = ''fifo'' then [(''FifoQueue'', ''True'')] else [])
                  in (case invoke (CreateQueue queue_name attrs)
                             (create_queue connection queue_name attrs) w1 of
                        (Inl e, w2) \<Rightarrow> (failed e result, w2)
                      | (Inr queue_url, w2) \<Rightarrow>
                          (let result1 = dict_set result ''changed'' (PBool True)
                           in (case update queue_url w2 of
                                 (Inl e, w3) \<Rightarrow> (failed e result1, w3)
                               | (Inr changed, w3) \<Rightarrow>
                                   read_back connection module queue_url result1 w3))))
               else (ExitJson result, w1))))"

subsection \<open>\<^verbatim>\<open>delete_sqs_queue\<close>\<close>

definition delete_sqs_queue ::
  "'r connection \<Rightarrow> ansible_module \<Rightarrow> 'r world \<Rightarrow> outcome \<times> 'r world" where
  "delete_sqs_queue connection module w =
     (let queue_name = name (params module);
          result = [(''region'', region (params module)), (''name'', PStr queue_name)];
          failed = except_ClientError ''Failed to delete sqs queue due to error: ''
      in (case invoke (GetQueueUrl queue_name) (get_queue_url connection queue_name) w of
            (Inl e, w1) \<Rightarrow> (failed e result, w1)
          | (Inr queue_url, w1) \<Rightarrow>
              (if queue_url \<noteq> [] then
                 (if \<not> check_mode module then
                    (case invoke (DeleteQueue queue_url) (delete_queue connection queue_url) w1 of
                       (Inl e, w2) \<Rightarrow> (failed e result, w2)
                     | (Inr u, w2) \<Rightarrow> (ExitJson (dict_set result ''changed'' (PBool True)), w2))
                  else (ExitJson (dict_set result ''changed'' (PBool True)), w1))
               else (ExitJson (dict_set result ''changed'' (PBool False)), w1))))"

subsection \<open>\<^verbatim>\<open>main\<close>\<close>

text \<open>
  \<open>has_boto3\<close> is the flag \<^verbatim>\<open>HAS_BOTO3\<close> and \<open>boto3_conn\<close> what the call of \<^verbatim>\<open>boto3_conn\<close>
  gives: the client, or the exception it raises.
\<close>

definition main ::
  "bool \<Rightarrow> exn + 'r connection \<Rightarrow> ansible_module \<Rightarrow> 'r world \<Rightarrow> outcome \<times> 'r world" where
  "main has_boto3 boto3_conn module w =
     (if \<not> has_boto3 then
        (FailJson [(''msg'', PStr ''boto3 and botocore are required for this module'')], w)
      else
        (case boto3_conn of
           Inl e \<Rightarrow>
             (if e = NoRegionError then
                (FailJson [(''msg'', PStr ''Region must be specified as a parameter in AWS_DEFAULT_REGION environment variable or in boto configuration file.'')], w)
              else (Uncaught e, w))
         | Inr connection \<Rightarrow>
             (if state (params module) = ''present'' then create_or_update_sqs_queue connection module w
              else if state (params module) = ''absent'' then delete_sqs_queue connection module w
              else (Returned, w))))"

section \<open>\<^verbatim>\<open>src/sqs_queue.py\<close>\<close>

text \<open>
  The second file of the repository defines the same functions, written \<open>_top\<close> here.
  Its \<^verbatim>\<open>set_queue_attribute\<close> passes the attribute name itself as \<^verbatim>\<open>AttributeNames\<close>,
  looks the attribute up in the response of \<^verbatim>\<open>get_queue_attributes\<close> directly, and
  compares \<^verbatim>\<open>str(value)\<close> as it is. Its \<^verbatim>\<open>create_or_update_sqs_queue\<close> only updates a
  queue that exists, and its \<^verbatim>\<open>delete_sqs_queue\<close> is commented out, so that the name is
  unbound when \<^verbatim>\<open>main\<close> evaluates it.
\<close>

definition set_queue_attribute_top ::
  "'r connection \<Rightarrow> string \<Rightarrow> string \<Rightarrow> pyval \<Rightarrow> bool \<Rightarrow> 'r world \<Rightarrow> (exn + bool) \<times> 'r world" where
  "set_queue_attribute_top connection queue_url attribute val check w =
     (if \<not> truthy val \<and> ne_zero val then (Inr False, w)
      else
        (case invoke (GetQueueAttributes queue_url (PStr attribute))
                (get_queue_attributes connection queue_url (PStr attribute)) w of
           (got, w1) \<Rightarrow>
             (let existing_value =
                    (case got of
                       Inl e \<Rightarrow> []
                     | Inr attrs \<Rightarrow> (case dict_get attrs attribute of None \<Rightarrow> [] | Some s \<Rightarrow> s));
                  converted =
                    (if attribute \<in> set [''Policy'', ''RedrivePolicy''] then
                       (if existing_value \<noteq> [] then
                          (case json_loads existing_value of
                             None \<Rightarrow> Inl ValueError
                           | Some doc \<Rightarrow> Inr (PStr (json_dumps val), json_dumps doc))
                        else Inr (PStr (json_dumps val), existing_value))
                     else Inr (val, existing_value))
              in (case converted of
                    Inl e \<Rightarrow> (Inl e, w1)
                  | Inr (val', existing_value') \<Rightarrow>
                      (if py_str val' \<noteq> existing_value' then
                         (if \<not> check then
                            (case invoke (SetQueueAttributes queue_url [(attribute, py_str val')])
                                    (set_queue_attributes connection queue_url [(attribute, py_str val')]) w1 of
                               (Inl e, w2) \<Rightarrow> (Inl e, w2)
                             | (Inr u, w2) \<Rightarrow> (Inr True, w2))
                          else (Inr True, w1))
                       else (Inr False, w1))))))"

definition update_sqs_queue_top ::
  "'r connection \<Rightarrow> string \<Rightarrow> bool \<Rightarrow> pyval \<Rightarrow> pyval \<Rightarrow> pyval \<Rightarrow> pyval \<Rightarrow> pyval \<Rightarrow> pyval \<Rightarrow> pyval
     \<Rightarrow> 'r world \<Rightarrow> (exn + bool) \<times> 'r world" where
  "update_sqs_queue_top connection queue_url check dvt mrp mms dd rmwt pol rp =
     andthen (set_queue_attribute_top connection queue_url ''VisibilityTimeout'' dvt check) (\<lambda>c1.
     andthen (set_queue_attribute_top connection queue_url ''MessageRetentionPeriod'' mrp check) (\<lambda>c2.
     andthen (set_queue_attribute_top connection queue_url ''MaximumMessageSize'' mms check) (\<lambda>c3.
     andthen (set_queue_attribute_top connection queue_url ''DelaySeconds'' dd check) (\<lambda>c4.
     andthen (set_queue_attribute_top connection queue_url ''ReceiveMessageWaitTimeSeconds'' rmwt check) (\<lambda>c5.
     andthen (set_queue_attribute_top connection queue_url ''Policy'' pol check) (\<lambda>c6.
     andthen (set_queue_attribute_top connection queue_url ''RedrivePolicy'' rp check) (\<lambda>c7.
     Pair (Inr (c7 \<or> c6 \<or> c5 \<or> c4 \<or> c3 \<or> c2 \<or> c1 \<or> False)))))))))"

definition create_or_update_sqs_queue_top ::
  "'r connection \<Rightarrow> ansible_module \<Rightarrow> 'r world \<Rightarrow> outcome \<times> 'r world" where
  "create_or_update_sqs_queue_top connection module w =
     (let p = params module;
          queue_name = name p;
          queue_attributes =
            [(''default_visibility_timeout'', default_visibility_timeout p),
             (''message_retention_period'', message_retention_period p),
             (''maximum_message_size'', maximum_message_size p),
             (''delivery_delay'', delivery_delay p),
             (''receive_message_wait_time'', receive_message_wait_time p),
             (''policy'', policy p),
             (''redrive_policy'', redrive_policy p)];
          result = dict_update [(''region'', region p), (''name'', PStr queue_name)] queue_attributes;
          failed = except_ClientError ''Failed to create/update sqs queue due to error: ''
      in (case invoke (GetQueueUrl queue_name) (get_queue_url connection queue_name) w of
            (Inl e, w1) \<Rightarrow> (failed e result, w1)
          | (Inr queue_url, w1) \<Rightarrow>
              (if queue_url \<noteq> [] then
                 (case update_sqs_queue_top connection queue_url (check_mode module)
                         (kwarg queue_attributes ''default_visibility_timeout'')
                         (kwarg queue_attributes ''message_retention_period'')
                         (kwarg queue_attributes ''maximum_message_size'')
                         (kwarg queue_attributes ''delivery_delay'')
                         (kwarg queue_attributes ''receive_message_wait_time'')
                         (kwarg queue_attributes ''policy'')
                         (kwarg queue_attributes ''redrive_policy'') w1 of
                    (Inl e, w2) \<Rightarrow> (failed e result, w2)
                  | (Inr changed, w2) \<Rightarrow> (ExitJson (dict_set result ''changed'' (PBool changed)), w2))
               else (ExitJson result, w1))))"

text \<open>
  The names bound at module level when \<^verbatim>\<open>main\<close> runs: the imports, the four functions
  that are defined, and \<^verbatim>\<open>HAS_BOTO3\<close>. Evaluating any other name raises \<^verbatim>\<open>NameError\<close>;
  \<^verbatim>\<open>main\<close> evaluates \<^verbatim>\<open>delete_sqs_queue\<close> on its \<^verbatim>\<open>absent\<close> branch. The file has no body
  for that function, so a run in which the name were bound has nothing more to do here.
\<close>

definition globals_top :: "string list" where
  "globals_top =
     [''json'', ''traceback'', ''botocore'', ''boto3'', ''HAS_BOTO3'', ''AnsibleAWSModule'',
      ''get_aws_connection_info'', ''ec2_argument_spec'', ''boto3_conn'',
      ''camel_dict_to_snake_dict'', ''AnsibleAWSError'', ''connect_to_aws'',
      ''create_or_update_sqs_queue'', ''update_sqs_queue'', ''set_queue_attribute'', ''main'']"

definition main_top ::
  "bool \<Rightarrow> exn + 'r connection \<Rightarrow> ansible_module \<Rightarrow> 'r world \<Rightarrow> outcome \<times> 'r world" where
  "main_top has_boto3 boto3_conn module w =
     (if \<not> has_boto3 then
        (FailJson [(''msg'', PStr ''boto3 and botocore are required for this module'')], w)
      else
        (case boto3_conn of
           Inl e \<Rightarrow>
             (if e = NoRegionError then
                (FailJson [(''msg'', PStr ''Region must be specified as a parameter in AWS_DEFAULT_REGION environment variable or in boto configuration file.'')], w)
              else (Uncaught e, w))
         | Inr connection \<Rightarrow>
             (if state (params module) = ''present'' then
                create_or_update_sqs_queue_top connection module w
              else if state (params module) = ''absent'' then
                (if ''delete_sqs_queue'' \<in> set globals_top then (Returned, w)
                 else (Uncaught NameError, w))
              else (Returned, w))))"

section \<open>A queue service to run the module against\<close>

text \<open>
  The service behind the connection is no part of the repository. The general theorems
  below hold for every connection; this stand-in is for running the functions on concrete
  inputs. Its state is the queues that exist, by URL, each with its attributes as the
  strings last written. A queue that does not exist makes every call raise
  \<^verbatim>\<open>ClientError\<close>, as the \<^verbatim>\<open>QueueDoesNotExist\<close> error of the service is one;
  \<^verbatim>\<open>AttributeNames\<close> has to be a list.
\<close>

type_synonym sqs = "(string \<times> (string \<times> string) list) list"

definition sqs_url :: "string \<Rightarrow> string" where
  "sqs_url queue_name = ''https://sqs/'' @ queue_name"

definition new_queue_attributes :: "string \<Rightarrow> (string \<times> string) list \<Rightarrow> (string \<times> string) list" where
  "new_queue_attributes queue_name attrs =
     [(''QueueArn'', ''arn:aws:sqs:'' @ queue_name),
      (''VisibilityTimeout'', ''30''),
      (''MessageRetentionPeriod'', ''345600''),
      (''MaximumMessageSize'', ''262144''),
      (''DelaySeconds'', ''0''),
      (''ReceiveMessageWaitTimeSeconds'', ''0'')]
     @ (if dict_get attrs ''FifoQueue'' = None then []
        else [(''FifoQueue'', ''true''), (''ContentBasedDeduplication'', ''false'')])"

definition sqs_connection :: "sqs connection" where
  "sqs_connection =
     \<lparr>get_queue_url = (\<lambda>queue_name r.
        (if dict_get r (sqs_url queue_name) = None then Inl ClientError
         else Inr (sqs_url queue_name), r)),
      create_queue = (\<lambda>queue_name attrs r.
        (if dict_get r (sqs_url queue_name) = None
         then (Inr (sqs_url queue_name),
               dict_set r (sqs_url queue_name) (new_queue_attributes queue_name attrs))
         else (Inr (sqs_url queue_name), r))),
      get_queue_attributes = (\<lambda>queue_url names r.
        (case names of
           PList ns \<Rightarrow>
             (case dict_get r queue_url of
                None \<Rightarrow> (Inl ClientError, r)
              | Some attrs \<Rightarrow>
                  (Inr (if PStr ''All'' \<in> set ns then attrs
                        else filter (\<lambda>(k, v). PStr k \<in> set ns) attrs), r))
         | _ \<Rightarrow> (Inl OtherError, r))),
      set_queue_attributes = (\<lambda>queue_url attrs r.
        (case dict_get r queue_url of
           None \<Rightarrow> (Inl ClientError, r)
         | Some old \<Rightarrow> (Inr (), dict_set r queue_url (dict_update old attrs)))),
      delete_queue = (\<lambda>queue_url r.
        (case dict_get r queue_url of
           None \<Rightarrow> (Inl ClientError, r)
         | Some old \<Rightarrow> (Inr (), filter (\<lambda>(u, a). u \<noteq> queue_url) r)))\<rparr>"

definition start :: "'r \<Rightarrow> 'r world" where
  "start r = \<lparr>remote = r, calls = []\<rparr>"

definition module_args :: params where
  "module_args =
     \<lparr>state = ''present'', name = ''orders'', queue_type = ''standard'', region = PNone,
      fifo_content_based_deduplication = PBool False,
      default_visibility_timeout = PNone, message_retention_period = PNone,
      maximum_message_size = PNone, delivery_delay = PNone,
      receive_message_wait_time = PNone, policy = PNone, redrive_policy = PNone\<rparr>"

text \<open>
  Two documents are the same JSON document when they are equal once the entries of every
  dictionary are put in the order of their keys.
\<close>

fun sort_keys :: "pyval \<Rightarrow> pyval" where
  "sort_keys PNone = PNone"
| "sort_keys (PBool b) = PBool b"
| "sort_keys (PInt i) = PInt i"
| "sort_keys (PStr s) = PStr s"
| "sort_keys (PList xs) = PList (map sort_keys xs)"
| "sort_keys (PDict kvs) = PDict (sort_key fst (map (\<lambda>(k, v). (k, sort_keys v)) kvs))"

text \<open>The entry of the dictionary a run reports, if it reports one.\<close>

fun reported :: "outcome \<Rightarrow> string \<Rightarrow> pyval option" where
  "reported (ExitJson result) k = dict_get result k"
| "reported (FailJson result) k = dict_get result k"
| "reported (Uncaught e) k = None"
| "reported Returned k = None"

text \<open>An existing standard queue with the attributes of a new queue.\<close>

definition orders :: sqs where
  "orders = [(sqs_url ''orders'', new_queue_attributes ''orders'' [])]"

text \<open>
  The redrive policy of the module's documentation, and the same document as the remote
  service may hold it: keys in another order, other white space.
\<close>

definition redrive_example :: pyval where
  "redrive_example =
     PDict [(''maxReceiveCount'', PInt 5),
            (''deadLetterTargetArn'', PStr ''arn:aws:sqs:eu-west-1:123456789012:my-dead-queue'')]"

definition redrive_raw :: string where
  "redrive_raw =
     ''{ '' @ json_quote ''deadLetterTargetArn'' @ '':''
       @ json_quote ''arn:aws:sqs:eu-west-1:123456789012:my-dead-queue''
       @ '' ,'' @ json_quote ''maxReceiveCount'' @ '' : 5 }''"

definition orders_with_redrive :: sqs where
  "orders_with_redrive =
     [(sqs_url ''orders'', new_queue_attributes ''orders'' [] @ [(''RedrivePolicy'', redrive_raw)])]"

definition redrive_module :: ansible_module where
  "redrive_module =
     \<lparr>params = module_args\<lparr>redrive_policy := redrive_example\<rparr>, check_mode = False\<rparr>"

text \<open>A dry run that asks for a visibility timeout the queue does not have.\<close>

definition dry_run_module :: ansible_module where
  "dry_run_module =
     \<lparr>params = module_args\<lparr>default_visibility_timeout := PInt 120\<rparr>, check_mode = True\<rparr>"

text \<open>A FIFO queue named \<^verbatim>\<open>orders\<close>, and one whose name already ends in \<^verbatim>\<open>.fifo\<close>.\<close>

definition fifo_module :: ansible_module where
  "fifo_module =
     \<lparr>params = module_args\<lparr>queue_type := ''fifo''\<rparr>, check_mode = False\<rparr>"

definition fifo_named_module :: ansible_module where
  "fifo_named_module =
     \<lparr>params = module_args\<lparr>name := ''orders.fifo'', queue_type := ''fifo''\<rparr>, check_mode = False\<rparr>"

text \<open>A standard queue for which content-based deduplication is asked.\<close>

definition dedup_standard_module :: ansible_module where
  "dedup_standard_module =
     \<lparr>params = module_args\<lparr>fifo_content_based_deduplication := PBool True\<rparr>, check_mode = False\<rparr>"

text \<open>The removal of the queue \<^verbatim>\<open>orders\<close>.\<close>

definition absent_module :: ansible_module where
  "absent_module = \<lparr>params = module_args\<lparr>state := ''absent''\<rparr>, check_mode = False\<rparr>"




section \<open>The calls a function makes\<close>

text \<open>
  \<open>extends P w w'\<close>: the log of \<open>w'\<close> is the log of \<open>w\<close> followed by calls that all
  satisfy \<open>P\<close>; \<open>emits P m\<close>: every run of \<open>m\<close> extends the log in this way.
  \<open>attribute_call\<close> are the calls \<^verbatim>\<open>update_sqs_queue\<close> may make, \<open>later_call\<close> those of
  \<^verbatim>\<open>create_or_update_sqs_queue\<close> after it has resolved the queue name.
\<close>

fun attribute_call :: "bool \<Rightarrow> call \<Rightarrow> bool" where
  "attribute_call check (GetQueueAttributes u ns) = True"
| "attribute_call check (SetQueueAttributes u a) = (\<not> check)"
| "attribute_call check (GetQueueUrl n) = False"
| "attribute_call check (CreateQueue n a) = False"
| "attribute_call check (DeleteQueue u) = False"

definition extends :: "(call \<Rightarrow> bool) \<Rightarrow> 'r world \<Rightarrow> 'r world \<Rightarrow> bool" where
  "extends P w w' = (\<exists>cs. calls w' = calls w @ cs \<and> list_all P cs)"

definition emits :: "(call \<Rightarrow> bool) \<Rightarrow> ('r world \<Rightarrow> 'a \<times> 'r world) \<Rightarrow> bool" where
  "emits P m = (\<forall>w. extends P w (snd (m w)))"

fun later_call :: "bool \<Rightarrow> string \<Rightarrow> call \<Rightarrow> bool" where
  "later_call check qn (GetQueueUrl n) = False"
| "later_call check qn (CreateQueue n a) = (\<not> check \<and> n = qn)"
| "later_call check qn (GetQueueAttributes u ns) = True"
| "later_call check qn (SetQueueAttributes u a) = (\<not> check)"
| "later_call check qn (DeleteQueue u) = False"

section \<open>Lemmas\<close>

subsection \<open>The serialiser and the order of keys\<close>



lemma json_loads_empty: "json_loads [] = None"
  by (simp add: json_loads_def lex_end_def)

lemma insort_key_map_fst:
  assumes "\<And>x. fst (f x) = fst x"
  shows "insort_key fst (f x) (map f xs) = map f (insort_key fst x xs)"
  by (induction xs) (simp_all add: assms)

lemma sort_key_map_fst:
  assumes "\<And>x. fst (f x) = fst x"
  shows "sort_key fst (map f xs) = map f (sort_key fst xs)"
  by (induction xs) (simp_all add: insort_key_map_fst [OF assms])

lemma sort_key_idem: "sort_key f (sort_key f xs) = sort_key f xs"
  by (rule sort_key_id_if_sorted) (rule sorted_sort_key)

lemma json_dumps_sort_keys: "json_dumps (sort_keys v) = json_dumps v"
proof (induction v)
  case (PList xs)
  then have "map (json_dumps \<circ> sort_keys) xs = map json_dumps xs" by (intro map_cong) simp_all
  then show ?case by (simp only: sort_keys.simps json_dumps.simps map_map)
next
  case (PDict kvs)
  let ?f = "\<lambda>(k, v). (k, sort_keys v)"
  let ?g = "\<lambda>(k, v). json_quote k @ '': '' @ json_dumps v"
  have f: "fst (?f x) = fst x" for x :: "string \<times> pyval" by (cases x) simp
  have 1: "sort_key fst (sort_key fst (map ?f kvs)) = map ?f (sort_key fst kvs)"
    by (simp only: sort_key_idem sort_key_map_fst [of ?f, OF f])
  have 2: "map (?g \<circ> ?f) (sort_key fst kvs) = map ?g (sort_key fst kvs)"
  proof (intro map_cong refl)
    fix x assume "x \<in> set (sort_key fst kvs)"
    then have x: "x \<in> set kvs" by simp
    obtain k v where kv: "x = (k, v)" by (cases x)
    have "json_dumps (sort_keys v) = json_dumps v"
      using PDict.IH [OF x, of v] kv by simp
    then show "(?g \<circ> ?f) x = ?g x" using kv by simp
  qed
  show ?case by (simp only: sort_keys.simps json_dumps.simps 1 map_map 2)
qed simp_all

lemma same_document_same_dumps:
  "sort_keys a = sort_keys b \<Longrightarrow> json_dumps a = json_dumps b"
  using json_dumps_sort_keys [of a] json_dumps_sort_keys [of b] by simp

subsection \<open>\<^verbatim>\<open>set_queue_attribute\<close> step by step\<close>

lemma invoke_calls: "invoke c f w = (r, w') \<Longrightarrow> calls w' = calls w @ [c]"
  by (auto simp: invoke_def split: prod.splits)

lemma invoke_eq:
  "f (remote w) = (res, r') \<Longrightarrow> invoke c f w = (res, \<lparr>remote = r', calls = calls w @ [c]\<rparr>)"
  by (simp add: invoke_def)

lemma calls_snd_invoke: "calls (snd (invoke c f w)) = calls w @ [c]"
  by (simp add: invoke_def split: prod.splits)


lemma set_queue_attribute_unfold:
  assumes "\<not> (\<not> truthy val \<and> ne_zero val)"
    and "invoke (GetQueueAttributes queue_url (PList [PStr attribute]))
           (get_queue_attributes connection queue_url (PList [PStr attribute])) w = (got, w1)"
    and "existing =
           (case got of Inl e \<Rightarrow> [] | Inr attrs \<Rightarrow> (case dict_get attrs attribute of None \<Rightarrow> [] | Some s \<Rightarrow> s))"
    and "converted =
      (if attribute \<in> set [''Policy'', ''RedrivePolicy''] then
         (if existing \<noteq> [] then
            (case json_loads existing of
               None \<Rightarrow> Inl ValueError
             | Some doc \<Rightarrow> Inr (PStr (json_dumps val), json_dumps doc))
          else Inr (PStr (json_dumps val), existing))
       else Inr (val, existing))"
  shows "set_queue_attribute connection queue_url attribute val check w =
      (case converted of
         Inl e \<Rightarrow> (Inl e, w1)
       | Inr (val', existing_value') \<Rightarrow>
           (if lower (py_str val') \<noteq> existing_value' then
              (if \<not> check then
                 (case invoke (SetQueueAttributes queue_url [(attribute, py_str val')])
                         (set_queue_attributes connection queue_url [(attribute, py_str val')]) w1 of
                    (Inl e, w2) \<Rightarrow> (Inl e, w2)
                  | (Inr u, w2) \<Rightarrow> (Inr True, w2))
               else (Inr True, w1))
            else (Inr False, w1)))"
  unfolding set_queue_attribute_def if_not_P [OF assms(1)] assms(2) prod.case Let_def assms(3,4)
  by (rule refl)

lemma set_queue_attribute_top_unfold:
  assumes "\<not> (\<not> truthy val \<and> ne_zero val)"
    and "invoke (GetQueueAttributes queue_url (PStr attribute))
           (get_queue_attributes connection queue_url (PStr attribute)) w = (got, w1)"
    and "existing =
           (case got of Inl e \<Rightarrow> [] | Inr attrs \<Rightarrow> (case dict_get attrs attribute of None \<Rightarrow> [] | Some s \<Rightarrow> s))"
    and "converted =
      (if attribute \<in> set [''Policy'', ''RedrivePolicy''] then
         (if existing \<noteq> [] then
            (case json_loads existing of
               None \<Rightarrow> Inl ValueError
             | Some doc \<Rightarrow> Inr (PStr (json_dumps val), json_dumps doc))
          else Inr (PStr (json_dumps val), existing))
       else Inr (val, existing))"
  shows "set_queue_attribute_top connection queue_url attribute val check w =
      (case converted of
         Inl e \<Rightarrow> (Inl e, w1)
       | Inr (val', existing_value') \<Rightarrow>
           (if py_str val' \<noteq> existing_value' then
              (if \<not> check then
                 (case invoke (SetQueueAttributes queue_url [(attribute, py_str val')])
                         (set_queue_attributes connection queue_url [(attribute, py_str val')]) w1 of
                    (Inl e, w2) \<Rightarrow> (Inl e, w2)
                  | (Inr u, w2) \<Rightarrow> (Inr True, w2))
               else (Inr True, w1))
            else (Inr False, w1)))"
  unfolding set_queue_attribute_top_def if_not_P [OF assms(1)] assms(2) prod.case Let_def assms(3,4)
  by (rule refl)

lemma set_queue_attribute_world:
  assumes n: "\<not> (\<not> truthy val \<and> ne_zero val)"
    and g: "invoke (GetQueueAttributes queue_url (PList [PStr attribute]))
           (get_queue_attributes connection queue_url (PList [PStr attribute])) w = (got, w1)"
  shows "snd (set_queue_attribute connection queue_url attribute val check w) = w1
         \<or> (\<not> check \<and> (\<exists>s. snd (set_queue_attribute connection queue_url attribute val check w) =
               snd (invoke (SetQueueAttributes queue_url [(attribute, s)])
                      (set_queue_attributes connection queue_url [(attribute, s)]) w1)))"
proof -
  let ?res = "set_queue_attribute connection queue_url attribute val check w"
  define existing where "existing =
    (case got of Inl e \<Rightarrow> [] | Inr attrs \<Rightarrow> (case dict_get attrs attribute of None \<Rightarrow> [] | Some s \<Rightarrow> s))"
  define converted where "converted =
    (if attribute \<in> set [''Policy'', ''RedrivePolicy''] then
       (if existing \<noteq> [] then
          (case json_loads existing of
             None \<Rightarrow> Inl ValueError
           | Some doc \<Rightarrow> Inr (PStr (json_dumps val), json_dumps doc))
        else Inr (PStr (json_dumps val), existing))
     else Inr (val, existing))"
  note unfold = set_queue_attribute_unfold [OF n g existing_def converted_def, of check]
  show ?thesis
  proof (cases converted)
    case (Inl e)
    then show ?thesis using unfold by simp
  next
    case (Inr p)
    obtain val' existing' where p: "p = (val', existing')" by (cases p)
    show ?thesis
    proof (cases "lower (py_str val') \<noteq> existing' \<and> \<not> check")
      case True
      let ?s = "invoke (SetQueueAttributes queue_url [(attribute, py_str val')])
                  (set_queue_attributes connection queue_url [(attribute, py_str val')]) w1"
      have "snd ?res = snd ?s"
        using unfold Inr p True by (simp split: prod.splits sum.splits)
      then show ?thesis using True by blast
    next
      case False
      then have "snd ?res = w1" using unfold Inr p by auto
      then show ?thesis by simp
    qed
  qed
qed




lemma top_equal_documents_not_different:
  assumes "attribute \<in> {''Policy'', ''RedrivePolicy''}"
    and "truthy val"
    and "get_queue_attributes connection queue_url (PStr attribute) (remote w) = (Inr attrs, r')"
    and "dict_get attrs attribute = Some raw"
    and "json_loads raw = Some doc"
    and "sort_keys doc = sort_keys val"
  shows "set_queue_attribute_top connection queue_url attribute val check w =
           (Inr False, \<lparr>remote = r', calls = calls w @ [GetQueueAttributes queue_url (PStr attribute)]\<rparr>)"
proof -
  have n: "\<not> (\<not> truthy val \<and> ne_zero val)" using assms(2) by simp
  have g: "invoke (GetQueueAttributes queue_url (PStr attribute))
             (get_queue_attributes connection queue_url (PStr attribute)) w =
           (Inr attrs, \<lparr>remote = r', calls = calls w @ [GetQueueAttributes queue_url (PStr attribute)]\<rparr>)"
    using assms(3) by (rule invoke_eq)
  have raw: "raw \<noteq> []" using assms(5) json_loads_empty by auto
  have d: "json_dumps doc = json_dumps val" using assms(6) by (rule same_document_same_dumps)
  show ?thesis
    unfolding set_queue_attribute_top_unfold [OF n g refl refl]
    using assms(1,4,5) raw d by (auto simp: py_str_def)
qed

lemma equal_documents_different_iff_upper_case:
  assumes "attribute \<in> {''Policy'', ''RedrivePolicy''}"
    and "truthy val"
    and "get_queue_attributes connection queue_url (PList [PStr attribute]) (remote w) = (Inr attrs, r')"
    and "dict_get attrs attribute = Some raw"
    and "json_loads raw = Some doc"
    and "sort_keys doc = sort_keys val"
  shows "set_queue_attribute connection queue_url attribute val True w =
           (Inr (lower (json_dumps val) \<noteq> json_dumps val),
            \<lparr>remote = r', calls = calls w @ [GetQueueAttributes queue_url (PList [PStr attribute])]\<rparr>)"
proof -
  have n: "\<not> (\<not> truthy val \<and> ne_zero val)" using assms(2) by simp
  have g: "invoke (GetQueueAttributes queue_url (PList [PStr attribute]))
             (get_queue_attributes connection queue_url (PList [PStr attribute])) w =
           (Inr attrs, \<lparr>remote = r', calls = calls w @ [GetQueueAttributes queue_url (PList [PStr attribute])]\<rparr>)"
    using assms(3) by (rule invoke_eq)
  have raw: "raw \<noteq> []" using assms(5) json_loads_empty by auto
  have d: "json_dumps doc = json_dumps val" using assms(6) by (rule same_document_same_dumps)
  show ?thesis
    unfolding set_queue_attribute_unfold [OF n g refl refl]
    using assms(1,4,5) raw d by (auto simp: py_str_def)
qed

subsection \<open>The call log\<close>

lemma extends_refl: "extends P w w"
  by (simp add: extends_def)

lemma extends_trans: "extends P w w1 \<Longrightarrow> extends P w1 w2 \<Longrightarrow> extends P w w2"
  by (auto simp: extends_def)

lemma extends_mono: "extends P w w' \<Longrightarrow> (\<And>c. P c \<Longrightarrow> Q c) \<Longrightarrow> extends Q w w'"
  by (auto simp: extends_def list_all_iff)

lemma emitsD: "emits P m \<Longrightarrow> m w = (r, w') \<Longrightarrow> extends P w w'"
  unfolding emits_def by (drule spec [of _ w]) simp

lemma emits_Pair: "emits P (Pair x)"
  by (simp add: emits_def extends_refl)

lemma emits_andthen:
  assumes m: "emits P m" and f: "\<And>x. emits P (f x)"
  shows "emits P (andthen m f)"
  unfolding emits_def
proof
  fix w
  obtain r w1 where mw: "m w = (r, w1)" by (cases "m w")
  have e1: "extends P w w1" using m mw by (rule emitsD)
  show "extends P w (snd (andthen m f w))"
  proof (cases r)
    case (Inl e)
    then show ?thesis using e1 mw by (simp add: andthen_def)
  next
    case (Inr x)
    have "extends P w1 (snd (f x w1))" using f [of x] by (simp add: emits_def)
    with e1 have "extends P w (snd (f x w1))" by (rule extends_trans)
    then show ?thesis using mw Inr by (simp add: andthen_def)
  qed
qed

lemma emits_set_queue_attribute:
  "emits (attribute_call check) (set_queue_attribute connection queue_url attribute val check)"
  unfolding emits_def
proof
  fix w :: "'a world"
  let ?P = "attribute_call check"
  let ?g = "GetQueueAttributes queue_url (PList [PStr attribute])"
  let ?res = "set_queue_attribute connection queue_url attribute val check w"
  obtain got w1 where g: "invoke ?g (get_queue_attributes connection queue_url (PList [PStr attribute])) w = (got, w1)"
    by (cases "invoke ?g (get_queue_attributes connection queue_url (PList [PStr attribute])) w")
  have c1: "calls w1 = calls w @ [?g]" using g by (rule invoke_calls)
  show "extends ?P w (snd ?res)"
  proof (cases "\<not> truthy val \<and> ne_zero val")
    case True
    then show ?thesis by (simp add: set_queue_attribute_def extends_refl)
  next
    case False
    from set_queue_attribute_world [OF False g, of check] show ?thesis
    proof (elim disjE conjE exE)
      assume "snd ?res = w1"
      then show ?thesis using c1 by (simp add: extends_def)
    next
      fix s
      assume "\<not> check"
        and "snd ?res = snd (invoke (SetQueueAttributes queue_url [(attribute, s)])
               (set_queue_attributes connection queue_url [(attribute, s)]) w1)"
      then show ?thesis using c1 by (simp add: extends_def calls_snd_invoke)
    qed
  qed
qed

lemma emits_update_sqs_queue:
  "emits (attribute_call check) (update_sqs_queue connection queue_url check a b c d e f g h)"
  unfolding update_sqs_queue_def
  by (intro emits_andthen emits_set_queue_attribute emits_Pair)

lemma attribute_call_later: "attribute_call check c \<Longrightarrow> later_call check qn c"
  by (cases c) simp_all

lemma update_extends:
  assumes "update_sqs_queue connection queue_url check a b c d e f g h w = (r, w')"
  shows "extends (later_call check qn) w w'"
proof -
  have "extends (attribute_call check) w w'"
    using emits_update_sqs_queue assms by (rule emitsD)
  then show ?thesis by (rule extends_mono) (rule attribute_call_later)
qed

lemma read_back_extends:
  assumes "read_back connection module queue_url result w = (out, w')"
  shows "extends (later_call check qn) w w'"
proof (cases "check_mode module")
  case True
  then show ?thesis using assms by (simp add: read_back_def extends_refl)
next
  case False
  let ?g = "GetQueueAttributes queue_url (PList [PStr ''All''])"
  obtain r w1 where g: "invoke ?g (get_queue_attributes connection queue_url (PList [PStr ''All''])) w = (r, w1)"
    by (cases "invoke ?g (get_queue_attributes connection queue_url (PList [PStr ''All''])) w")
  have "w' = w1"
    using assms False g by (cases r) (auto simp: read_back_def split: sum.splits)
  moreover have "calls w1 = calls w @ [?g]" using g by (rule invoke_calls)
  ultimately show ?thesis by (simp add: extends_def)
qed

lemma create_or_update_calls:
  assumes run: "create_or_update_sqs_queue connection module w = (out, w')"
    and qn: "qn = (if queue_type (params module) = ''fifo'' then name (params module) @ ''.fifo''
                   else name (params module))"
  shows "\<exists>w1. calls w1 = calls w @ [GetQueueUrl qn] \<and> extends (later_call (check_mode module) qn) w1 w'"
proof -
  let ?L = "later_call (check_mode module) qn"
  obtain r w1 where g: "invoke (GetQueueUrl qn) (get_queue_url connection qn) w = (r, w1)"
    by (cases "invoke (GetQueueUrl qn) (get_queue_url connection qn) w")
  have c1: "calls w1 = calls w @ [GetQueueUrl qn]" using g by (rule invoke_calls)
  have "extends ?L w1 w'"
  proof (cases r)
    case (Inr url)
    then show ?thesis
      using run g unfolding create_or_update_sqs_queue_def Let_def qn [symmetric]
      by (auto split: prod.splits sum.splits
            dest!: update_extends [where qn = qn]
                   read_back_extends [where qn = qn and check = "check_mode module"]
            intro: extends_trans)
  next
    case (Inl e)
    show ?thesis
    proof (cases "check_mode module")
      case True
      then show ?thesis
        using run g Inl unfolding create_or_update_sqs_queue_def Let_def qn [symmetric]
        by (simp add: extends_refl)
    next
      case False
      define attrs where
        "attrs = (if queue_type (params module) = ''fifo'' then [(''FifoQueue'', ''True'')] else [])"
      obtain r2 w2 where c: "invoke (CreateQueue qn attrs) (create_queue connection qn attrs) w1 = (r2, w2)"
        by (cases "invoke (CreateQueue qn attrs) (create_queue connection qn attrs) w1")
      have e2: "extends ?L w1 w2"
        using invoke_calls [OF c] False by (simp add: extends_def)
      have "extends ?L w2 w'"
        using run g Inl False c
        unfolding create_or_update_sqs_queue_def Let_def qn [symmetric] attrs_def [symmetric]
        by (auto split: prod.splits sum.splits
              dest!: update_extends [where qn = qn]
                     read_back_extends [where qn = qn and check = "check_mode module"]
              intro: extends_refl extends_trans)
      with e2 show ?thesis by (rule extends_trans)
    qed
  qed
  with c1 show ?thesis by blast
qed

lemma later_call_not_mutating: "later_call True qn c \<Longrightarrow> \<not> mutating c"
  by (cases c) simp_all

lemma later_call_names:
  "later_call check qn c \<Longrightarrow> (\<forall>n. c \<noteq> GetQueueUrl n) \<and> (\<forall>n a. c = CreateQueue n a \<longrightarrow> n = qn)"
  by (cases c) simp_all

lemma delete_calls:
  assumes "delete_sqs_queue connection module w = (out, w')"
  shows "\<exists>cs. calls w' = calls w @ GetQueueUrl (name (params module)) # cs
           \<and> (\<forall>c\<in>set cs. \<not> check_mode module \<and> (\<exists>u. c = DeleteQueue u))"
  using assms unfolding delete_sqs_queue_def Let_def
  by (auto split: prod.splits sum.splits if_splits dest!: invoke_calls)

subsection \<open>Runs of the module\<close>

lemma read_back_ignores_deduplication:
  "read_back connection
     (module\<lparr>params := (params module)\<lparr>fifo_content_based_deduplication := v\<rparr>\<rparr>) queue_url result w =
   read_back connection module queue_url result w"
  by (simp add: read_back_def)

lemma create_or_update_ignores_deduplication:
  assumes "queue_type (params module) \<noteq> ''fifo''"
  shows "create_or_update_sqs_queue connection
           (module\<lparr>params := (params module)\<lparr>fifo_content_based_deduplication := v\<rparr>\<rparr>) w =
         create_or_update_sqs_queue connection module w"
  using assms
  by (simp add: create_or_update_sqs_queue_def read_back_ignores_deduplication Let_def
        cong: prod.case_cong sum.case_cong if_cong)

lemma delete_ignores_deduplication:
  "delete_sqs_queue connection
     (module\<lparr>params := (params module)\<lparr>fifo_content_based_deduplication := v\<rparr>\<rparr>) w =
   delete_sqs_queue connection module w"
  by (simp add: delete_sqs_queue_def Let_def cong: prod.case_cong sum.case_cong if_cong)

lemma delete_of_unresolved_queue_never_exits:
  assumes "get_queue_url connection (name (params module)) (remote w) = (Inl e, r')"
  shows "delete_sqs_queue connection module w =
           (if e = ClientError
            then FailJson [(''region'', region (params module)), (''name'', PStr (name (params module))),
                   (''msg'', PStr (''Failed to delete sqs queue due to error: '' @ format_exc e))]
            else Uncaught e,
            \<lparr>remote = r', calls = calls w @ [GetQueueUrl (name (params module))]\<rparr>)"
  using invoke_eq [where f = "get_queue_url connection (name (params module))" and w = w
      and c = "GetQueueUrl (name (params module))", OF assms]
  by (simp add: delete_sqs_queue_def Let_def except_ClientError_def)

lemma dry_run_of_unresolved_queue_sets_no_changed:
  assumes "check_mode module"
    and "qn = (if queue_type (params module) = ''fifo'' then name (params module) @ ''.fifo''
               else name (params module))"
    and "get_queue_url connection qn (remote w) = (Inl e, r')"
  shows "\<exists>result. create_or_update_sqs_queue connection module w =
           (ExitJson result, \<lparr>remote = r', calls = calls w @ [GetQueueUrl qn]\<rparr>)
         \<and> dict_get result ''changed'' = None"
  using invoke_eq [where f = "get_queue_url connection qn" and w = w and c = "GetQueueUrl qn",
      OF assms(3)] assms(1)
  unfolding create_or_update_sqs_queue_def Let_def assms(2) [symmetric]
  by (simp add: dict_update_def dict_get_def)

section \<open>The claims\<close>

subsection \<open>C1\<close>

text \<open>
  C1 says that \<^verbatim>\<open>set_queue_attribute\<close> reports a JSON-document attribute as not different,
  and writes nothing, whenever the desired value and the remote raw string are the same
  JSON object. In \<^verbatim>\<open>src/sqs_queue/sqs_queue.py\<close> the serialised desired document is
  lower-cased before the comparison and the remote one is not. Here the remote
  \<^verbatim>\<open>RedrivePolicy\<close> is the desired document with its keys in another order and other white
  space: it parses to the same object, yet the function returns \<^verbatim>\<open>True\<close> and writes the
  attribute.
\<close>

theorem equal_redrive_policy_reported_different:
  "json_loads redrive_raw =
     Some (PDict [(''deadLetterTargetArn'', PStr ''arn:aws:sqs:eu-west-1:123456789012:my-dead-queue''),
                  (''maxReceiveCount'', PInt 5)])
   \<and> map_option sort_keys (json_loads redrive_raw) = Some (sort_keys redrive_example)
   \<and> fst (set_queue_attribute sqs_connection (sqs_url ''orders'') ''RedrivePolicy'' redrive_example False
            (start orders_with_redrive)) = Inr True
   \<and> calls (snd (set_queue_attribute sqs_connection (sqs_url ''orders'') ''RedrivePolicy'' redrive_example
            False (start orders_with_redrive))) =
       [GetQueueAttributes (sqs_url ''orders'') (PList [PStr ''RedrivePolicy'']),
        SetQueueAttributes (sqs_url ''orders'') [(''RedrivePolicy'', json_dumps redrive_example)]]"
  by code_simp

subsection \<open>C2\<close>

text \<open>
  C2 says that a second run with the same parameters reports \<^verbatim>\<open>changed=false\<close>. With the
  redrive policy of the module's documentation the first run on an existing queue writes
  the policy and reports a change; the second run, on the remote state the first one
  left, reports a change again and leaves the remote state as it was.
\<close>

theorem second_run_reports_changed_again:
  "reported (fst (main True (Inr sqs_connection) redrive_module (start orders))) ''changed''
     = Some (PBool True)
   \<and> reported (fst (main True (Inr sqs_connection) redrive_module
        (start (remote (snd (main True (Inr sqs_connection) redrive_module (start orders)))))))
        ''changed''
     = Some (PBool True)
   \<and> remote (snd (main True (Inr sqs_connection) redrive_module
        (start (remote (snd (main True (Inr sqs_connection) redrive_module (start orders)))))))
     = remote (snd (main True (Inr sqs_connection) redrive_module (start orders)))"
  by code_simp

subsection \<open>C3\<close>

text \<open>
  C3. When \<^verbatim>\<open>check_mode\<close> is set, a run of \<^verbatim>\<open>main\<close> issues no mutating remote call,
  whatever the parameters, the connection and the remote state are: every call it adds to
  the log is a read (\<^verbatim>\<open>get_queue_url\<close> or \<^verbatim>\<open>get_queue_attributes\<close>), never
  \<^verbatim>\<open>set_queue_attributes\<close>, \<^verbatim>\<open>create_queue\<close> or \<^verbatim>\<open>delete_queue\<close>.
\<close>

theorem check_mode_issues_no_mutating_call:
  assumes "check_mode module"
    and "main has_boto3 boto3_conn module w = (out, w')"
  shows "\<exists>cs. calls w' = calls w @ cs \<and> (\<forall>c\<in>set cs. \<not> mutating c)"
proof (cases "has_boto3 \<and> (\<exists>connection. boto3_conn = Inr connection)
                \<and> (state (params module) = ''present'' \<or> state (params module) = ''absent'')")
  case False
  then have "w' = w"
    using assms(2) by (auto simp: main_def split: sum.splits if_splits)
  then show ?thesis by simp
next
  case True
  then obtain connection where conn: "boto3_conn = Inr connection" by blast
  show ?thesis
  proof (cases "state (params module) = ''present''")
    case present: True
    then have run: "create_or_update_sqs_queue connection module w = (out, w')"
      using assms(2) True conn by (simp add: main_def)
    define qn where "qn = (if queue_type (params module) = ''fifo''
      then name (params module) @ ''.fifo'' else name (params module))"
    from create_or_update_calls [OF run qn_def]
    obtain w1 where c1: "calls w1 = calls w @ [GetQueueUrl qn]"
      and e: "extends (later_call (check_mode module) qn) w1 w'"
      by auto
    from e obtain cs where "calls w' = calls w1 @ cs"
      and "list_all (later_call (check_mode module) qn) cs"
      by (auto simp: extends_def)
    then show ?thesis
      using assms(1) c1 later_call_not_mutating by (auto simp: list_all_iff)
  next
    case False
    then have run: "delete_sqs_queue connection module w = (out, w')"
      using assms(2) True conn by (simp add: main_def)
    from delete_calls [OF run] assms(1) show ?thesis by auto
  qed
qed

theorem check_mode_issues_no_mutating_call_witness:
  "check_mode dry_run_module
   \<and> reported (fst (main True (Inr sqs_connection) dry_run_module (start orders))) ''changed'' = Some (PBool True)
   \<and> filter mutating (calls (snd (main True (Inr sqs_connection) dry_run_module (start orders)))) = []"
proof -
  have h: "check_mode dry_run_module" by (simp add: dry_run_module_def)
  have c: "reported (fst (main True (Inr sqs_connection) dry_run_module (start orders))) ''changed'' = Some (PBool True)"
    by code_simp
  have "filter mutating (calls (snd (main True (Inr sqs_connection) dry_run_module (start orders)))) = []"
    using check_mode_issues_no_mutating_call [OF h surjective_pairing, of True "Inr sqs_connection" "start orders"]
    by (auto simp: start_def filter_empty_conv)
  with h c show ?thesis by simp
qed

subsection \<open>C4\<close>




subsection \<open>C5\<close>

text \<open>
  C5 says that a dry run for a queue that does not exist reports \<^verbatim>\<open>changed=true\<close>. The
  assignment \<^verbatim>\<open>result['changed'] = True\<close> sits under \<^verbatim>\<open>if not module.check_mode\<close>, so
  the dictionary passed to \<^verbatim>\<open>exit_json\<close> has no \<^verbatim>\<open>changed\<close> entry; the queue is not
  created.
\<close>

theorem dry_run_of_missing_queue_reports_no_change:
  "fst (main True (Inr sqs_connection) \<lparr>params = module_args, check_mode = True\<rparr> (start [])) =
     ExitJson [(''region'', PNone), (''name'', PStr ''orders''),
       (''default_visibility_timeout'', PNone),
       (''message_retention_period'', PNone),
       (''maximum_message_size'', PNone), (''delivery_delay'', PNone),
       (''receive_message_wait_time'', PNone), (''policy'', PNone),
       (''redrive_policy'', PNone)]
   \<and> reported (fst (main True (Inr sqs_connection) \<lparr>params = module_args, check_mode = True\<rparr>
        (start []))) ''changed'' = None
   \<and> calls (snd (main True (Inr sqs_connection) \<lparr>params = module_args, check_mode = True\<rparr>
        (start []))) = [GetQueueUrl ''orders'']"
  by code_simp

subsection \<open>C6\<close>

text \<open>
  C6 says that removing a queue that does not exist succeeds with \<^verbatim>\<open>changed=false\<close>.
  \<^verbatim>\<open>get_queue_url\<close> raises for such a queue, and \<^verbatim>\<open>delete_sqs_queue\<close> handles the
  exception with \<^verbatim>\<open>fail_json\<close>: the run fails, with no \<^verbatim>\<open>changed\<close> entry; no delete call
  is issued.
\<close>

theorem delete_of_missing_queue_fails:
  "fst (main True (Inr sqs_connection) absent_module (start [])) =
     FailJson [(''region'', PNone), (''name'', PStr ''orders''),
       (''msg'', PStr ''Failed to delete sqs queue due to error: botocore.exceptions.ClientError'')]
   \<and> calls (snd (main True (Inr sqs_connection) absent_module (start []))) = [GetQueueUrl ''orders'']"
  by code_simp

subsection \<open>C7\<close>




subsection \<open>C8\<close>

text \<open>
  C8 (amended). When \<^verbatim>\<open>queue_type\<close> is \<^verbatim>\<open>'fifo'\<close>, the name used to resolve and to
  create the queue is the caller's name with \<^verbatim>\<open>.fifo\<close> appended, whatever the caller's
  name ends with: the first call is \<^verbatim>\<open>get_queue_url\<close> on that name, no other name is
  resolved, and a queue that is created gets that name.
\<close>

theorem fifo_suffix_always_appended:
  assumes "queue_type (params module) = ''fifo''"
    and "state (params module) = ''present''"
    and "main True (Inr connection) module w = (out, w')"
  shows "\<exists>cs. calls w' = calls w @ GetQueueUrl (name (params module) @ ''.fifo'') # cs
           \<and> (\<forall>c\<in>set cs. (\<forall>n. c \<noteq> GetQueueUrl n)
                 \<and> (\<forall>n a. c = CreateQueue n a \<longrightarrow> n = name (params module) @ ''.fifo''))"
proof -
  have run: "create_or_update_sqs_queue connection module w = (out, w')"
    using assms(2,3) by (simp add: main_def)
  define qn where "qn = (if queue_type (params module) = ''fifo''
    then name (params module) @ ''.fifo'' else name (params module))"
  have qn: "qn = name (params module) @ ''.fifo''" using assms(1) by (simp add: qn_def)
  from create_or_update_calls [OF run qn_def]
  obtain w1 where c1: "calls w1 = calls w @ [GetQueueUrl qn]"
    and e: "extends (later_call (check_mode module) qn) w1 w'"
    by auto
  from e obtain cs where cs: "calls w' = calls w1 @ cs"
    and l: "list_all (later_call (check_mode module) qn) cs"
    by (auto simp: extends_def)
  have "\<forall>c\<in>set cs. (\<forall>n. c \<noteq> GetQueueUrl n) \<and> (\<forall>n a. c = CreateQueue n a \<longrightarrow> n = qn)"
    using l later_call_names [of "check_mode module" qn] by (auto simp: list_all_iff)
  with c1 cs qn show ?thesis by simp
qed

theorem fifo_suffix_always_appended_witness:
  "hd (calls (snd (main True (Inr sqs_connection) fifo_module (start [])))) = GetQueueUrl ''orders.fifo''
   \<and> take 2 (calls (snd (main True (Inr sqs_connection) fifo_module (start [])))) =
       [GetQueueUrl ''orders.fifo'', CreateQueue ''orders.fifo'' [(''FifoQueue'', ''True'')]]"
proof -
  have q: "queue_type (params fifo_module) = ''fifo''" and s: "state (params fifo_module) = ''present''"
    by (simp_all add: fifo_module_def module_args_def)
  have "hd (calls (snd (main True (Inr sqs_connection) fifo_module (start [])))) = GetQueueUrl ''orders.fifo''"
    using fifo_suffix_always_appended [OF q s surjective_pairing, of sqs_connection "start []"]
    by (auto simp: start_def fifo_module_def module_args_def)
  moreover have "take 2 (calls (snd (main True (Inr sqs_connection) fifo_module (start [])))) =
       [GetQueueUrl ''orders.fifo'', CreateQueue ''orders.fifo'' [(''FifoQueue'', ''True'')]]"
    by code_simp
  ultimately show ?thesis by simp
qed

text \<open>
  C8 as stated fails: for the name \<^verbatim>\<open>orders.fifo\<close> the queue resolved, created and
  reported is \<^verbatim>\<open>orders.fifo.fifo\<close>.
\<close>

theorem fifo_suffix_duplicated:
  "take 2 (calls (snd (main True (Inr sqs_connection) fifo_named_module (start [])))) =
     [GetQueueUrl ''orders.fifo.fifo'', CreateQueue ''orders.fifo.fifo'' [(''FifoQueue'', ''True'')]]
   \<and> reported (fst (main True (Inr sqs_connection) fifo_named_module (start []))) ''name'' =
       Some (PStr ''orders.fifo.fifo'')"
  by code_simp

subsection \<open>C9\<close>

text \<open>
  C9 (amended). For a queue type other than \<^verbatim>\<open>'fifo'\<close>, a value given for
  \<^verbatim>\<open>fifo_content_based_deduplication\<close> is ignored: the run is not rejected, and it makes
  the same remote calls and ends with the same result as for any other value of that
  parameter.
\<close>

theorem deduplication_ignored_for_standard:
  assumes "queue_type (params module) \<noteq> ''fifo''"
  shows "main has_boto3 boto3_conn
           (module\<lparr>params := (params module)\<lparr>fifo_content_based_deduplication := v\<rparr>\<rparr>) w =
         main has_boto3 boto3_conn module w"
  by (cases boto3_conn)
    (simp_all add: main_def create_or_update_ignores_deduplication [OF assms]
       delete_ignores_deduplication)

theorem deduplication_ignored_for_standard_witness:
  "queue_type (params dedup_standard_module) \<noteq> ''fifo''
   \<and> main True (Inr sqs_connection) dedup_standard_module (start []) =
     main True (Inr sqs_connection) \<lparr>params = module_args, check_mode = False\<rparr> (start [])"
proof -
  have q: "queue_type (params \<lparr>params = module_args, check_mode = False\<rparr>) \<noteq> ''fifo''"
    by (simp add: module_args_def)
  have "dedup_standard_module =
        \<lparr>params = module_args, check_mode = False\<rparr>
          \<lparr>params := (params \<lparr>params = module_args, check_mode = False\<rparr>)
             \<lparr>fifo_content_based_deduplication := PBool True\<rparr>\<rparr>"
    by (simp add: dedup_standard_module_def)
  then show ?thesis
    using deduplication_ignored_for_standard [OF q, of True "Inr sqs_connection" "PBool True" "start []"] q
    by (simp add: dedup_standard_module_def)
qed

text \<open>
  C9 as stated fails: a standard queue with \<^verbatim>\<open>fifo_content_based_deduplication\<close> set is
  created, and the run exits without an error.
\<close>

theorem deduplication_not_rejected:
  "fst (main True (Inr sqs_connection) dedup_standard_module (start [])) =
     ExitJson [(''region'', PNone), (''name'', PStr ''orders''),
       (''default_visibility_timeout'', PStr ''30''),
       (''message_retention_period'', PStr ''345600''),
       (''maximum_message_size'', PStr ''262144''),
       (''delivery_delay'', PStr ''0''),
       (''receive_message_wait_time'', PStr ''0''), (''policy'', PNone),
       (''redrive_policy'', PNone), (''changed'', PBool True),
       (''queue_arn'', PStr ''arn:aws:sqs:orders'')]
   \<and> calls (snd (main True (Inr sqs_connection) dedup_standard_module (start []))) =
       [GetQueueUrl ''orders'', CreateQueue ''orders'' [],
        GetQueueAttributes (sqs_url ''orders'') (PList [PStr ''All''])]"
  by code_simp

subsection \<open>C10\<close>

text \<open>
  C10. In \<^verbatim>\<open>src/sqs_queue.py\<close>, once the client exists, \<^verbatim>\<open>main\<close> with
  \<^verbatim>\<open>state='absent'\<close> evaluates the name \<^verbatim>\<open>delete_sqs_queue\<close>, which the file does not
  bind: the run ends in an uncaught \<^verbatim>\<open>NameError\<close> before any remote call, so that it
  neither deletes a queue nor reports \<^verbatim>\<open>changed\<close>.
\<close>

theorem absent_raises_NameError:
  assumes "state (params module) = ''absent''"
  shows "main_top True (Inr connection) module w = (Uncaught NameError, w)"
  using assms by (simp add: main_top_def globals_top_def)

theorem absent_raises_NameError_witness:
  "state (params absent_module) = ''absent''
   \<and> main_top True (Inr sqs_connection) absent_module (start orders) = (Uncaught NameError, start orders)"
proof -
  have s: "state (params absent_module) = ''absent''"
    by (simp add: absent_module_def module_args_def)
  from absent_raises_NameError [OF s] s show ?thesis by simp
qed

end
